theory Spec2Isabelle
  imports Main
begin

section \<open>The physician scheduler: constraint model and result decoder\<close>

text \<open>
  The program \<^verbatim>\<open>sample_physician_scheduler.py\<close> has one function, \<^verbatim>\<open>main\<close>. It creates
  one Boolean decision variable per (physician, day, shift), posts five families of
  constraints on a CP-SAT model, builds an objective, calls the solver, and prints the
  schedule the solver found. The solver is an external collaborator: the embedding
  covers the model the program builds (variables, constraints in posting order), the
  meaning of that model under an assignment of the variables, the evaluation of the
  objective's expression with the error it raises, and the printing of the result from a
  solver status and value function.
\<close>

subsection \<open>Problem parameters (lines 5--10)\<close>

definition num_physicians :: nat where
  "num_physicians = 10"

definition num_shifts :: nat where
  "num_shifts = 3"

definition num_days :: nat where
  "num_days = 7"

definition all_physicians :: "nat list" where
  "all_physicians = [0..<num_physicians]"

definition all_shifts :: "nat list" where
  "all_shifts = [0..<num_shifts]"

definition all_days :: "nat list" where
  "all_days = [0..<num_days]"

subsection \<open>Expressions, constraints and the model object\<close>

text \<open>
  A decision variable is identified by its key \<open>(p, d, s)\<close> in the dictionary
  \<^verbatim>\<open>shifts\<close>: the variable loop creates exactly one variable per key, so the key names
  the variable. Expressions are the linear integer expressions of the solver library:
  variables, numbers, sums, differences, and the product of an expression with a number.
  A constraint is a comparison of two expressions.
\<close>

type_synonym var = "nat \<times> nat \<times> nat"

datatype expr =
    Var var
  | Const int
  | Plus expr expr
  | Minus expr expr
  | Product expr int

datatype constr =
    Ge expr expr
  | Le expr expr
  | Eq expr expr

record cp_model =
  bool_vars :: "var list"
  constraints :: "constr list"
  objective :: "expr option"

definition CpModel :: cp_model where
  "CpModel = \<lparr>bool_vars = [], constraints = [], objective = None\<rparr>"

definition NewBoolVar :: "var \<Rightarrow> cp_model \<Rightarrow> cp_model" where
  "NewBoolVar k m = m\<lparr>bool_vars := bool_vars m @ [k]\<rparr>"

definition Add :: "constr \<Rightarrow> cp_model \<Rightarrow> cp_model" where
  "Add c m = m\<lparr>constraints := constraints m @ [c]\<rparr>"

definition Minimize :: "expr \<Rightarrow> cp_model \<Rightarrow> cp_model" where
  "Minimize e m = m\<lparr>objective := Some e\<rparr>"

text \<open>Python's \<^verbatim>\<open>sum\<close> of a generator starts from 0 and adds the items from the left.\<close>

definition py_sum :: "expr list \<Rightarrow> expr" where
  "py_sum es = foldl Plus (Const 0) es"

text \<open>
  Python's \<^verbatim>\<open>*\<close> on these values. Two numbers multiply; an expression times a number
  (in either order) is the scaled expression; the library defines no product of two
  expressions, and \<^verbatim>\<open>x * y\<close> raises \<^verbatim>\<open>TypeError\<close> when neither operand is a number.
\<close>

datatype py_error = TypeError | KeyError

fun number_of :: "expr \<Rightarrow> int option" where
  "number_of (Const c) = Some c"
| "number_of (Var v) = None"
| "number_of (Plus x y) = None"
| "number_of (Minus x y) = None"
| "number_of (Product x k) = None"

definition py_mul :: "expr \<Rightarrow> expr \<Rightarrow> py_error + expr" where
  "py_mul x y =
     (case number_of y of
        Some k \<Rightarrow> (case number_of x of Some c \<Rightarrow> Inr (Const (c * k)) | None \<Rightarrow> Inr (Product x k))
      | None \<Rightarrow> (case number_of x of Some c \<Rightarrow> Inr (Product y c) | None \<Rightarrow> Inl TypeError))"

text \<open>The dictionary lookup \<^verbatim>\<open>shifts[(p, d, s)]\<close>.\<close>

definition shifts :: "var \<Rightarrow> expr" where
  "shifts k = Var k"

subsection \<open>Meaning of a model under an assignment\<close>

text \<open>
  Every variable is created by \<^verbatim>\<open>NewBoolVar\<close>, so an assignment gives each variable a
  truth value, read as the integer 0 or 1 inside expressions.
\<close>

type_synonym assignment = "var \<Rightarrow> bool"

fun eval :: "assignment \<Rightarrow> expr \<Rightarrow> int" where
  "eval a (Var v) = (if a v then 1 else 0)"
| "eval a (Const c) = c"
| "eval a (Plus x y) = eval a x + eval a y"
| "eval a (Minus x y) = eval a x - eval a y"
| "eval a (Product x k) = eval a x * k"

fun holds :: "assignment \<Rightarrow> constr \<Rightarrow> bool" where
  "holds a (Ge x y) = (eval a x \<ge> eval a y)"
| "holds a (Le x y) = (eval a x \<le> eval a y)"
| "holds a (Eq x y) = (eval a x = eval a y)"

definition satisfies :: "assignment \<Rightarrow> cp_model \<Rightarrow> bool" where
  "satisfies a m = list_all (holds a) (constraints m)"

fun vars_of :: "expr \<Rightarrow> var list" where
  "vars_of (Var v) = [v]"
| "vars_of (Const c) = []"
| "vars_of (Plus x y) = vars_of x @ vars_of y"
| "vars_of (Minus x y) = vars_of x @ vars_of y"
| "vars_of (Product x k) = vars_of x"

fun constr_vars :: "constr \<Rightarrow> var list" where
  "constr_vars (Ge x y) = vars_of x @ vars_of y"
| "constr_vars (Le x y) = vars_of x @ vars_of y"
| "constr_vars (Eq x y) = vars_of x @ vars_of y"

text \<open>
  The aggregates the properties are stated with: the number of physicians on a shift,
  the number of night shifts (shift 2) of a physician, the number of shifts of a physician
  on one day, and the number of all shifts of a physician.
\<close>

definition assigned_count :: "assignment \<Rightarrow> nat \<Rightarrow> nat \<Rightarrow> nat" where
  "assigned_count a d s = length (filter (\<lambda>p. a (p, d, s)) all_physicians)"

definition night_shift_count :: "assignment \<Rightarrow> nat \<Rightarrow> nat" where
  "night_shift_count a p = length (filter (\<lambda>d. a (p, d, 2)) all_days)"

definition shifts_on_day :: "assignment \<Rightarrow> nat \<Rightarrow> nat \<Rightarrow> nat" where
  "shifts_on_day a p d = length (filter (\<lambda>s. a (p, d, s)) all_shifts)"

definition total_shift_count :: "assignment \<Rightarrow> nat \<Rightarrow> int" where
  "total_shift_count a p =
     (\<Sum>d<num_days. \<Sum>s<num_shifts. if a (p, d, s) then 1 else 0)"

subsection \<open>Building the model (lines 12--77)\<close>

text \<open>Lines 16--20: one Boolean variable per physician, day and shift.\<close>

definition create_variables :: "cp_model \<Rightarrow> cp_model" where
  "create_variables =
     fold (\<lambda>p. fold (\<lambda>d. fold (\<lambda>s. NewBoolVar (p, d, s)) all_shifts) all_days)
       all_physicians"

text \<open>
  Lines 24--32: for each day, first one constraint per shift asking for at least one
  physician, then one constraint for each of the shifts 0 and 1 asking for at least two.
\<close>

definition coverage_requirements :: "cp_model \<Rightarrow> cp_model" where
  "coverage_requirements =
     fold (\<lambda>d m.
        fold (\<lambda>s. Add (Ge (py_sum (map (\<lambda>p. shifts (p, d, s)) all_physicians)) (Const 2)))
          [0, 1]
          (fold (\<lambda>s. Add (Ge (py_sum (map (\<lambda>p. shifts (p, d, s)) all_physicians)) (Const 1)))
             all_shifts m))
       all_days"

text \<open>
  Lines 34--42: at most one shift per physician and day; and, when \<open>d < num_days - 1\<close>,
  not both the night shift of day \<open>d\<close> and shift 0 of day \<open>(d + 1) % 7\<close>.
\<close>

definition rest_periods :: "cp_model \<Rightarrow> cp_model" where
  "rest_periods =
     fold (\<lambda>p.
        fold (\<lambda>d m.
           let m1 = Add (Le (py_sum (map (\<lambda>s. shifts (p, d, s)) all_shifts)) (Const 1)) m
           in if d < num_days - 1
              then Add (Le (Plus (shifts (p, d, 2)) (shifts (p, (d + 1) mod 7, 0))) (Const 1)) m1
              else m1)
          all_days)
       all_physicians"

text \<open>Lines 44--54: the night-shift count of each physician, equated for every pair.\<close>

definition night_shifts :: "nat \<Rightarrow> expr" where
  "night_shifts p = py_sum (map (\<lambda>d. shifts (p, d, 2)) all_days)"

definition night_fairness :: "cp_model \<Rightarrow> cp_model" where
  "night_fairness =
     fold (\<lambda>p1.
        fold (\<lambda>p2 m. if p1 < p2 then Add (Eq (night_shifts p1) (night_shifts p2)) m else m)
          all_physicians)
       all_physicians"

text \<open>Lines 56--61: physicians 8 and 9 never work the night shift.\<close>

definition senior_rules :: "cp_model \<Rightarrow> cp_model" where
  "senior_rules =
     fold (\<lambda>d m. Add (Eq (shifts (9, d, 2)) (Const 0)) (Add (Eq (shifts (8, d, 2)) (Const 0)) m))
       all_days"

text \<open>Lines 63--67: day 5 and day 6 carry the same assignment.\<close>

definition weekend_rules :: "cp_model \<Rightarrow> cp_model" where
  "weekend_rules =
     fold (\<lambda>p. fold (\<lambda>s. Add (Eq (shifts (p, 5, s)) (shifts (p, 6, s)))) all_shifts)
       all_physicians"

text \<open>
  The model after line 67: all variables are created and all constraints are posted.
  Nothing after line 67 adds a variable or a constraint.
\<close>

definition main_model :: cp_model where
  "main_model =
     weekend_rules (senior_rules (night_fairness (rest_periods
       (coverage_requirements (create_variables CpModel)))))"

text \<open>
  Lines 69--77: the objective. The argument of \<^verbatim>\<open>model.Minimize\<close> is the \<^verbatim>\<open>sum\<close> of a
  generator that yields, for the pairs \<open>p1 < p2\<close> in order, the product of the difference
  of the two total shift counts with itself. An item that raises ends the evaluation
  with its error, and \<^verbatim>\<open>model.Minimize\<close> is then not called.
\<close>

definition total_shifts :: "nat \<Rightarrow> expr" where
  "total_shifts p = py_sum (concat (map (\<lambda>d. map (\<lambda>s. shifts (p, d, s)) all_shifts) all_days))"

definition squared_differences :: "(py_error + expr) list" where
  "squared_differences =
     concat (map (\<lambda>p1. concat (map (\<lambda>p2.
        if p1 < p2
        then [py_mul (Minus (total_shifts p1) (total_shifts p2))
                     (Minus (total_shifts p1) (total_shifts p2))]
        else []) all_physicians)) all_physicians)"

fun collect :: "(py_error + 'a) list \<Rightarrow> py_error + 'a list" where
  "collect [] = Inr []"
| "collect (Inl e # xs) = Inl e"
| "collect (Inr x # xs) = (case collect xs of Inl e \<Rightarrow> Inl e | Inr ys \<Rightarrow> Inr (x # ys))"

definition objective_arg :: "py_error + expr" where
  "objective_arg =
     (case collect squared_differences of Inl e \<Rightarrow> Inl e | Inr es \<Rightarrow> Inr (py_sum es))"

text \<open>Lines 12--77 as a whole: the model on which line 81 would call the solver.\<close>

definition main :: "py_error + cp_model" where
  "main = (case objective_arg of Inl e \<Rightarrow> Inl e | Inr e \<Rightarrow> Inr (Minimize e main_model))"

subsection \<open>Printing the result (lines 84--96)\<close>

text \<open>
  The status is the value \<^verbatim>\<open>solver.Solve\<close> returns, one of the five constants of the
  solver library; \<^verbatim>\<open>solver.Value\<close> is a function from variables to integers. The console
  records the text written to standard output and, in order, every variable whose value
  was asked of the solver.
\<close>

datatype status = UNKNOWN | MODEL_INVALID | FEASIBLE | INFEASIBLE | OPTIMAL

record console =
  printed :: string
  reads :: "var list"

definition console0 :: console where
  "console0 = \<lparr>printed = [], reads = []\<rparr>"

definition newline :: string where
  "newline = [CHR 0x0A]"

text \<open>\<^verbatim>\<open>print(text, end=e)\<close>; the default \<^verbatim>\<open>end\<close> is the newline.\<close>

definition print :: "string \<Rightarrow> string \<Rightarrow> console \<Rightarrow> console" where
  "print txt e c = c\<lparr>printed := printed c @ txt @ e\<rparr>"

text \<open>The decimal digits of a natural number, as an f-string formats it.\<close>

fun str_nat :: "nat \<Rightarrow> string" where
  "str_nat n =
     (if n < 10 then [''0123456789'' ! n]
      else str_nat (n div 10) @ [''0123456789'' ! (n mod 10)])"

declare str_nat.simps [simp del]

definition Value :: "(var \<Rightarrow> int) \<Rightarrow> var \<Rightarrow> console \<Rightarrow> int \<times> console" where
  "Value value_of v c = (value_of v, c\<lparr>reads := reads c @ [v]\<rparr>)"

definition print_physician :: "(var \<Rightarrow> int) \<Rightarrow> nat \<Rightarrow> nat \<Rightarrow> nat \<Rightarrow> console \<Rightarrow> console" where
  "print_physician value_of d s p c =
     (case Value value_of (p, d, s) c of
        (x, c1) \<Rightarrow> if x = 1 then print (''P'' @ str_nat (p + 1)) '' '' c1 else c1)"

definition print_shift :: "(var \<Rightarrow> int) \<Rightarrow> nat \<Rightarrow> nat \<Rightarrow> console \<Rightarrow> console" where
  "print_shift value_of d s c =
     print [] newline
       (fold (print_physician value_of d s) all_physicians
          (print (''  Shift '' @ str_nat (s + 1) @ '':'') '' '' c))"

definition print_day :: "(var \<Rightarrow> int) \<Rightarrow> nat \<Rightarrow> console \<Rightarrow> console" where
  "print_day value_of d c =
     print [] newline
       (fold (print_shift value_of d) all_shifts
          (print (''Day '' @ str_nat (d + 1) @ '':'') newline c))"

definition print_solution :: "status \<Rightarrow> (var \<Rightarrow> int) \<Rightarrow> console \<Rightarrow> console" where
  "print_solution st value_of c =
     (if st = OPTIMAL \<or> st = FEASIBLE
      then fold (print_day value_of) all_days (print ''Solution found:'' newline c)
      else print ''No solution found.'' newline c)"

subsection \<open>The schedule report as the specification words it\<close>

text \<open>
  The structured report: for every day in ascending order, for every shift in ascending
  order, the physicians in ascending order whose variable resolved to 1. Its display
  numbers days, shifts and physicians from 1 and prefixes a physician with \<open>P\<close>.
\<close>

definition spec_roster :: "(var \<Rightarrow> int) \<Rightarrow> nat list list list" where
  "spec_roster value_of =
     map (\<lambda>d. map (\<lambda>s. filter (\<lambda>p. value_of (p, d, s) = 1) [0..<10]) [0..<3]) [0..<7]"

definition spec_show_shift :: "nat \<Rightarrow> nat list \<Rightarrow> string" where
  "spec_show_shift s ps =
     ''  Shift '' @ str_nat (s + 1) @ '': '' @ concat (map (\<lambda>p. ''P'' @ str_nat (p + 1) @ '' '') ps)
       @ newline"

definition spec_show_day :: "nat \<Rightarrow> nat list list \<Rightarrow> string" where
  "spec_show_day d row =
     ''Day '' @ str_nat (d + 1) @ '':'' @ newline
       @ concat (map (\<lambda>(s, ps). spec_show_shift s ps) (enumerate 0 row)) @ newline"

definition spec_show_roster :: "nat list list list \<Rightarrow> string" where
  "spec_show_roster r =
     ''Solution found:'' @ newline @ concat (map (\<lambda>(d, row). spec_show_day d row) (enumerate 0 r))"

section \<open>Properties of the posted model\<close>

subsection \<open>What each section of the program posts\<close>

lemma constraints_Add [simp]: "constraints (Add c m) = constraints m @ [c]"
  by (simp add: Add_def)

lemma constraints_fold:
  assumes "\<And>x m. constraints (g x m) = constraints m @ h x"
  shows "constraints (fold g xs m) = constraints m @ concat (map h xs)"
  using assms by (induction xs arbitrary: m) simp_all

lemma constraints_fold_Add:
  "constraints (fold (\<lambda>x. Add (f x)) xs m) = constraints m @ map f xs"
  by (induction xs arbitrary: m) simp_all

lemma constraints_NewBoolVar [simp]: "constraints (NewBoolVar k m) = constraints m"
  by (simp add: NewBoolVar_def)

lemma constraints_fold_keep:
  assumes "\<And>x m. constraints (g x m) = constraints m"
  shows "constraints (fold g xs m) = constraints m"
  using assms by (induction xs arbitrary: m) simp_all

lemma constraints_create_variables: "constraints (create_variables m) = constraints m"
  unfolding create_variables_def
  by (intro constraints_fold_keep) simp

lemma constraints_coverage:
  "constraints (coverage_requirements m) = constraints m @
     concat (map (\<lambda>d.
        map (\<lambda>s. Ge (py_sum (map (\<lambda>p. shifts (p, d, s)) all_physicians)) (Const 1)) all_shifts
        @ map (\<lambda>s. Ge (py_sum (map (\<lambda>p. shifts (p, d, s)) all_physicians)) (Const 2)) [0, 1])
       all_days)"
  unfolding coverage_requirements_def
  by (rule constraints_fold) (simp add: constraints_fold_Add)

lemma constraints_rest:
  "constraints (rest_periods m) = constraints m @
     concat (map (\<lambda>p. concat (map (\<lambda>d.
        Le (py_sum (map (\<lambda>s. shifts (p, d, s)) all_shifts)) (Const 1)
        # (if d < num_days - 1
           then [Le (Plus (shifts (p, d, 2)) (shifts (p, (d + 1) mod 7, 0))) (Const 1)]
           else [])) all_days)) all_physicians)"
  unfolding rest_periods_def
  by (rule constraints_fold, rule constraints_fold) (simp add: Let_def)

lemma constraints_fairness:
  "constraints (night_fairness m) = constraints m @
     concat (map (\<lambda>p1. concat (map (\<lambda>p2.
        if p1 < p2 then [Eq (night_shifts p1) (night_shifts p2)] else []) all_physicians))
       all_physicians)"
  unfolding night_fairness_def
  by (rule constraints_fold, rule constraints_fold) simp

lemma constraints_senior:
  "constraints (senior_rules m) = constraints m @
     concat (map (\<lambda>d. [Eq (shifts (8, d, 2)) (Const 0), Eq (shifts (9, d, 2)) (Const 0)]) all_days)"
  unfolding senior_rules_def
  by (rule constraints_fold) simp

lemma constraints_weekend:
  "constraints (weekend_rules m) = constraints m @
     concat (map (\<lambda>p. map (\<lambda>s. Eq (shifts (p, 5, s)) (shifts (p, 6, s))) all_shifts) all_physicians)"
  unfolding weekend_rules_def
  by (rule constraints_fold) (simp add: constraints_fold_Add)

lemma constraints_main:
  "constraints main_model =
     constraints (coverage_requirements CpModel) @ constraints (rest_periods CpModel)
     @ constraints (night_fairness CpModel) @ constraints (senior_rules CpModel)
     @ constraints (weekend_rules CpModel)"
  by (simp add: main_model_def constraints_weekend constraints_senior
      constraints_fairness constraints_rest constraints_coverage constraints_create_variables
      CpModel_def)

subsection \<open>Meaning of the posted expressions\<close>

lemma eval_foldl_Plus:
  "eval a (foldl Plus e es) = eval a e + sum_list (map (eval a) es)"
  by (induction es arbitrary: e) simp_all

lemma eval_py_sum: "eval a (py_sum es) = sum_list (map (eval a) es)"
  by (simp add: py_sum_def eval_foldl_Plus)

lemma sum_list_indicator:
  "sum_list (map (\<lambda>x. if P x then 1 else 0) xs) = int (length (filter P xs))"
  by (induction xs) simp_all

lemma eval_sum_shifts:
  "eval a (py_sum (map (\<lambda>x. shifts (k x)) xs)) = int (length (filter (\<lambda>x. a (k x)) xs))"
  by (simp add: eval_py_sum shifts_def comp_def sum_list_indicator)

lemma eval_night_shifts: "eval a (night_shifts p) = int (night_shift_count a p)"
  by (simp add: night_shifts_def night_shift_count_def eval_sum_shifts)

lemma holds_coverage:
  "holds a (Ge (py_sum (map (\<lambda>p. shifts (p, d, s)) all_physicians)) (Const (int n)))
     \<longleftrightarrow> n \<le> assigned_count a d s"
  by (simp add: eval_sum_shifts assigned_count_def)

lemma holds_one_shift:
  "holds a (Le (py_sum (map (\<lambda>s. shifts (p, d, s)) all_shifts)) (Const 1))
     \<longleftrightarrow> shifts_on_day a p d \<le> 1"
  by (simp add: eval_sum_shifts shifts_on_day_def)

lemma holds_rest:
  "holds a (Le (Plus (shifts (p, d, 2)) (shifts (p, d', 0))) (Const 1))
     \<longleftrightarrow> \<not> (a (p, d, 2) \<and> a (p, d', 0))"
  by (simp add: shifts_def)

lemma holds_weekend: "holds a (Eq (shifts v) (shifts w)) \<longleftrightarrow> (a v \<longleftrightarrow> a w)"
  by (simp add: shifts_def)

lemma set_all_physicians: "set all_physicians = {p. p < num_physicians}"
  by (auto simp: all_physicians_def)

lemma set_all_days: "set all_days = {d. d < num_days}"
  by (auto simp: all_days_def)

lemma set_all_shifts: "set all_shifts = {s. s < num_shifts}"
  by (auto simp: all_shifts_def)

lemmas set_ranges = set_all_physicians set_all_days set_all_shifts

subsection \<open>The posted constraints, family by family\<close>

lemma ball_coverage:
  "(\<forall>c\<in>set (constraints (coverage_requirements CpModel)). P c) \<longleftrightarrow>
     (\<forall>d<num_days.
        (\<forall>s<num_shifts. P (Ge (py_sum (map (\<lambda>p. shifts (p, d, s)) all_physicians)) (Const 1)))
        \<and> (\<forall>s\<in>{0, 1}. P (Ge (py_sum (map (\<lambda>p. shifts (p, d, s)) all_physicians)) (Const 2))))"
  by (auto simp: constraints_coverage CpModel_def set_ranges)

lemma ball_rest:
  "(\<forall>c\<in>set (constraints (rest_periods CpModel)). P c) \<longleftrightarrow>
     (\<forall>p<num_physicians. \<forall>d<num_days.
        P (Le (py_sum (map (\<lambda>s. shifts (p, d, s)) all_shifts)) (Const 1))
        \<and> (d < num_days - 1 \<longrightarrow>
             P (Le (Plus (shifts (p, d, 2)) (shifts (p, (d + 1) mod 7, 0))) (Const 1))))"
  by (auto simp: constraints_rest CpModel_def set_ranges)

lemma ball_fairness:
  "(\<forall>c\<in>set (constraints (night_fairness CpModel)). P c) \<longleftrightarrow>
     (\<forall>p1<num_physicians. \<forall>p2<num_physicians.
        p1 < p2 \<longrightarrow> P (Eq (night_shifts p1) (night_shifts p2)))"
  by (auto simp: constraints_fairness CpModel_def set_ranges)

lemma ball_senior:
  "(\<forall>c\<in>set (constraints (senior_rules CpModel)). P c) \<longleftrightarrow>
     (\<forall>d<num_days. P (Eq (shifts (8, d, 2)) (Const 0)) \<and> P (Eq (shifts (9, d, 2)) (Const 0)))"
  by (auto simp: constraints_senior CpModel_def set_ranges)

lemma ball_weekend:
  "(\<forall>c\<in>set (constraints (weekend_rules CpModel)). P c) \<longleftrightarrow>
     (\<forall>p<num_physicians. \<forall>s<num_shifts. P (Eq (shifts (p, 5, s)) (shifts (p, 6, s))))"
  by (auto simp: constraints_weekend CpModel_def set_ranges)

lemma ball_main:
  "(\<forall>c\<in>set (constraints main_model). P c) \<longleftrightarrow>
     (\<forall>c\<in>set (constraints (coverage_requirements CpModel)). P c)
     \<and> (\<forall>c\<in>set (constraints (rest_periods CpModel)). P c)
     \<and> (\<forall>c\<in>set (constraints (night_fairness CpModel)). P c)
     \<and> (\<forall>c\<in>set (constraints (senior_rules CpModel)). P c)
     \<and> (\<forall>c\<in>set (constraints (weekend_rules CpModel)). P c)"
  by (auto simp: constraints_main)

lemma night_shift_count_0_iff:
  "night_shift_count a p = 0 \<longleftrightarrow> (\<forall>d<num_days. \<not> a (p, d, 2))"
  by (auto simp: night_shift_count_def filter_empty_conv set_all_days)

lemma assigned_count_0_iff:
  "assigned_count a d s = 0 \<longleftrightarrow> (\<forall>p<num_physicians. \<not> a (p, d, s))"
  by (auto simp: assigned_count_def filter_empty_conv set_all_physicians)

lemma night_counts_forced_zero:
  assumes fair: "\<forall>c\<in>set (constraints (night_fairness CpModel)). holds a c"
    and senior: "\<forall>c\<in>set (constraints (senior_rules CpModel)). holds a c"
    and p: "p < num_physicians"
  shows "night_shift_count a p = 0"
proof -
  have n8: "night_shift_count a 8 = 0"
    using senior by (auto simp: ball_senior shifts_def night_shift_count_0_iff split: if_splits)
  have n9: "night_shift_count a 9 = 0"
    using senior by (auto simp: ball_senior shifts_def night_shift_count_0_iff split: if_splits)
  show ?thesis
  proof (cases "p < 8")
    case True
    then have "night_shift_count a p = night_shift_count a 8"
      using fair by (simp add: ball_fairness eval_night_shifts num_physicians_def)
    with n8 show ?thesis by simp
  next
    case False
    with p have "p = 8 \<or> p = 9" by (auto simp: num_physicians_def)
    with n8 n9 show ?thesis by auto
  qed
qed

lemma mem_via_ball:
  assumes "\<And>P. (\<forall>c\<in>S. P c) \<Longrightarrow> P x"
  shows "x \<in> S"
  using assms [of "\<lambda>c. c \<in> S"] by simp

lemma coverage1_posted:
  assumes "d < num_days" "s < num_shifts"
  shows "Ge (py_sum (map (\<lambda>p. shifts (p, d, s)) all_physicians)) (Const 1)
           \<in> set (constraints main_model)"
  by (rule mem_via_ball) (simp add: ball_main ball_coverage assms)

lemma coverage2_posted:
  assumes "d < num_days" "s < 2"
  shows "Ge (py_sum (map (\<lambda>p. shifts (p, d, s)) all_physicians)) (Const 2)
           \<in> set (constraints main_model)"
proof -
  from assms(2) have "s = 0 \<or> s = 1" by auto
  then show ?thesis
    by (intro mem_via_ball) (auto simp: ball_main ball_coverage assms(1))
qed

lemma one_shift_posted:
  assumes "p < num_physicians" "d < num_days"
  shows "Le (py_sum (map (\<lambda>s. shifts (p, d, s)) all_shifts)) (Const 1)
           \<in> set (constraints main_model)"
  by (rule mem_via_ball) (simp add: ball_main ball_rest assms)

lemma rest_posted:
  assumes "p < num_physicians" "d < num_days - 1"
  shows "Le (Plus (shifts (p, d, 2)) (shifts (p, (d + 1) mod 7, 0))) (Const 1)
           \<in> set (constraints main_model)"
proof -
  from assms(2) have "d < num_days" by simp
  with assms show ?thesis
    by (intro mem_via_ball) (auto simp: ball_main ball_rest)
qed

lemma fairness_posted:
  assumes "p1 < p2" "p2 < num_physicians"
  shows "Eq (night_shifts p1) (night_shifts p2) \<in> set (constraints main_model)"
proof -
  from assms have "p1 < num_physicians" by simp
  then show ?thesis
    by (intro mem_via_ball) (simp add: ball_main ball_fairness assms)
qed

lemma senior_posted:
  assumes "d < num_days" "p = 8 \<or> p = 9"
  shows "Eq (shifts (p, d, 2)) (Const 0) \<in> set (constraints main_model)"
  using assms(2)
  by (intro mem_via_ball) (auto simp: ball_main ball_senior assms(1))

lemma weekend_posted:
  assumes "p < num_physicians" "s < num_shifts"
  shows "Eq (shifts (p, 5, s)) (shifts (p, 6, s)) \<in> set (constraints main_model)"
  by (rule mem_via_ball) (simp add: ball_main ball_weekend assms)

lemma vars_of_foldl_Plus:
  "set (vars_of (foldl Plus e es)) = set (vars_of e) \<union> (\<Union>x\<in>set es. set (vars_of x))"
  by (induction es arbitrary: e) auto

lemma vars_of_py_sum: "set (vars_of (py_sum es)) = (\<Union>x\<in>set es. set (vars_of x))"
  by (simp add: py_sum_def vars_of_foldl_Plus)

lemma all_shifts_list: "all_shifts = [0, 1, 2]"
  by (simp add: all_shifts_def num_shifts_def upt_conv_Cons)

lemma not_both_vars_main:
  assumes "p < num_physicians"
  shows "\<forall>c\<in>set (constraints main_model).
           \<not> ((p, num_days - 1, 2) \<in> set (constr_vars c) \<and> (p, 0, 0) \<in> set (constr_vars c))"
  by (auto simp: ball_main ball_coverage ball_rest ball_fairness ball_senior ball_weekend
      vars_of_py_sum night_shifts_def shifts_def num_days_def)

subsection \<open>Every dictionary lookup finds its key\<close>

text \<open>
  The variable loop creates the keys \<open>(p, d, s)\<close> with \<open>p < 10\<close>, \<open>d < 7\<close> and \<open>s < 3\<close>, and
  every variable that a constraint or a total shift count mentions is one of them: no
  lookup \<^verbatim>\<open>shifts[(p, d, s)]\<close> of the program raises.
\<close>

lemma bool_vars_NewBoolVar [simp]: "bool_vars (NewBoolVar k m) = bool_vars m @ [k]"
  by (simp add: NewBoolVar_def)

lemma bool_vars_Add [simp]: "bool_vars (Add c m) = bool_vars m"
  by (simp add: Add_def)

lemma bool_vars_fold:
  assumes "\<And>x m. bool_vars (g x m) = bool_vars m @ h x"
  shows "bool_vars (fold g xs m) = bool_vars m @ concat (map h xs)"
  using assms by (induction xs arbitrary: m) simp_all

lemma bool_vars_fold_keep:
  assumes "\<And>x m. bool_vars (g x m) = bool_vars m"
  shows "bool_vars (fold g xs m) = bool_vars m"
  using assms by (induction xs arbitrary: m) simp_all

lemma bool_vars_fold_New:
  "bool_vars (fold (\<lambda>x. NewBoolVar (f x)) xs m) = bool_vars m @ map f xs"
  by (induction xs arbitrary: m) simp_all

lemma bool_vars_create_variables:
  "bool_vars (create_variables m) = bool_vars m @
     concat (map (\<lambda>p. concat (map (\<lambda>d. map (\<lambda>s. (p, d, s)) all_shifts) all_days)) all_physicians)"
  unfolding create_variables_def
  by (rule bool_vars_fold, rule bool_vars_fold) (simp add: bool_vars_fold_New)

lemma bool_vars_main:
  "set (bool_vars main_model) = {(p, d, s). p < num_physicians \<and> d < num_days \<and> s < num_shifts}"
proof -
  have "bool_vars main_model = bool_vars (create_variables CpModel)"
    unfolding main_model_def weekend_rules_def senior_rules_def night_fairness_def
      rest_periods_def coverage_requirements_def
    by (simp add: bool_vars_fold_keep Let_def)
  then show ?thesis
    by (auto simp: bool_vars_create_variables CpModel_def set_ranges)
qed

lemma lookups_defined:
  "\<forall>c\<in>set (constraints main_model). set (constr_vars c) \<subseteq> set (bool_vars main_model)"
  by (auto simp: ball_main ball_coverage ball_rest ball_fairness ball_senior ball_weekend
      vars_of_py_sum night_shifts_def shifts_def bool_vars_main set_ranges
      num_physicians_def num_days_def num_shifts_def)

lemma total_shifts_lookups_defined:
  "p < num_physicians \<Longrightarrow> set (vars_of (total_shifts p)) \<subseteq> set (bool_vars main_model)"
  by (auto simp: total_shifts_def vars_of_py_sum shifts_def bool_vars_main set_ranges)

subsection \<open>The posted constraints have no solution\<close>

text \<open>
  Claim C1. With 10 physicians, 7 days, 3 shifts and physicians 8 and 9 excluded from
  night shifts, no assignment of truth values to the grid satisfies all posted
  constraints. The reason is the first conjunct: an assignment that satisfies the pairwise
  night-count equalities and the night exclusions gives every physician the night-shift
  count 0, while the coverage constraint of day 0, shift 2 asks for at least one
  physician on a night shift.
\<close>

theorem posted_constraints_unsatisfiable:
  "(list_all (holds a) (constraints (night_fairness CpModel))
      \<and> list_all (holds a) (constraints (senior_rules CpModel))
      \<longrightarrow> (\<forall>p<num_physicians. night_shift_count a p = 0))
   \<and> \<not> satisfies a main_model"
proof (intro conjI impI allI)
  fix p
  assume "list_all (holds a) (constraints (night_fairness CpModel))
      \<and> list_all (holds a) (constraints (senior_rules CpModel))"
    and "p < num_physicians"
  then show "night_shift_count a p = 0"
    by (intro night_counts_forced_zero) (simp_all add: list_all_iff)
next
  show "\<not> satisfies a main_model"
  proof
    assume "satisfies a main_model"
    then have all: "\<forall>c\<in>set (constraints main_model). holds a c"
      by (simp add: satisfies_def list_all_iff)
    then have zero: "\<And>p. p < num_physicians \<Longrightarrow> night_shift_count a p = 0"
      using night_counts_forced_zero by (simp add: ball_main)
    have "\<not> a (p, d, 2)" if "p < num_physicians" "d < num_days" for p d
      using zero [OF that(1)] that(2) by (simp add: night_shift_count_0_iff)
    then have "assigned_count a 0 2 = 0"
      by (simp add: assigned_count_0_iff num_days_def)
    moreover have "1 \<le> assigned_count a 0 2"
      using all holds_coverage [of a 0 2 1]
      by (simp add: ball_main ball_coverage num_days_def num_shifts_def)
    ultimately show False by simp
  qed
qed

theorem posted_constraints_unsatisfiable_witness:
  "list_all (holds (\<lambda>v. False)) (constraints (night_fairness CpModel))
   \<and> list_all (holds (\<lambda>v. False)) (constraints (senior_rules CpModel))
   \<and> (3::nat) < num_physicians
   \<and> night_shift_count (\<lambda>v. False) 3 = 0
   \<and> \<not> satisfies (\<lambda>v. False) main_model"
proof -
  have f: "list_all (holds (\<lambda>v. False)) (constraints (night_fairness CpModel))"
    by (simp add: list_all_iff ball_fairness eval_night_shifts night_shift_count_def)
  have s: "list_all (holds (\<lambda>v. False)) (constraints (senior_rules CpModel))"
    by (simp add: list_all_iff ball_senior shifts_def)
  have p: "(3::nat) < num_physicians"
    by (simp add: num_physicians_def)
  from posted_constraints_unsatisfiable [of "\<lambda>v. False"] f s p show ?thesis
    by simp
qed

subsection \<open>The constraint families\<close>

text \<open>
  As no assignment satisfies the whole model, a statement of the form ``every assignment
  that satisfies the posted constraints has property \<open>Q\<close>'' holds for any \<open>Q\<close>. The
  theorems below therefore state more: the model handed to the solver contains a
  constraint that holds under an assignment exactly when \<open>Q\<close> does. An assignment that
  satisfies every posted constraint satisfies this one, hence has \<open>Q\<close>.
\<close>

text \<open>
  Satisfying the whole model, spelled out on the assignment: the conjunction of the
  seven conditions that the theorems below treat one by one.
\<close>

lemma satisfies_main_iff:
  "satisfies a main_model \<longleftrightarrow>
     (\<forall>d<num_days. \<forall>s<num_shifts. 1 \<le> assigned_count a d s)
     \<and> (\<forall>d<num_days. \<forall>s<2. 2 \<le> assigned_count a d s)
     \<and> (\<forall>p<num_physicians. \<forall>d<num_days. shifts_on_day a p d \<le> 1)
     \<and> (\<forall>p<num_physicians. \<forall>d<num_days - 1. \<not> (a (p, d, 2) \<and> a (p, (d + 1) mod 7, 0)))
     \<and> (\<forall>p2<num_physicians. \<forall>p1<p2. night_shift_count a p1 = night_shift_count a p2)
     \<and> (\<forall>d<num_days. \<not> a (8, d, 2) \<and> \<not> a (9, d, 2))
     \<and> (\<forall>p<num_physicians. \<forall>s<num_shifts. a (p, 5, s) \<longleftrightarrow> a (p, 6, s))"
proof -
  have two: "(\<forall>s\<in>{0, 1::nat}. Q s) \<longleftrightarrow> (\<forall>s<2. Q s)" for Q
    by (auto simp: less_2_cases_iff)
  have cov: "holds a (Ge (py_sum (map (\<lambda>p. shifts (p, d, s)) all_physicians)) (Const 2))
      \<longleftrightarrow> 2 \<le> assigned_count a d s" for d s
    using holds_coverage [of a d s 2] by simp
  have cov1: "holds a (Ge (py_sum (map (\<lambda>p. shifts (p, d, s)) all_physicians)) (Const 1))
      \<longleftrightarrow> 1 \<le> assigned_count a d s" for d s
    using holds_coverage [of a d s 1] by simp
  have sen: "holds a (Eq (shifts v) (Const 0)) \<longleftrightarrow> \<not> a v" for v
    by (simp add: shifts_def)
  have fair: "holds a (Eq (night_shifts p1) (night_shifts p2))
      \<longleftrightarrow> night_shift_count a p1 = night_shift_count a p2" for p1 p2
    by (simp add: eval_night_shifts)
  show ?thesis
    unfolding satisfies_def list_all_iff ball_main ball_coverage ball_rest ball_fairness
      ball_senior ball_weekend two cov cov1 sen fair holds_one_shift holds_rest holds_weekend
    by (auto simp: num_days_def)
qed

text \<open>
  Claim C2. For every day \<open>d\<close> and shift \<open>s\<close>, a posted constraint holds exactly when at
  least one physician is assigned to shift \<open>s\<close> of day \<open>d\<close>; for the peak shifts 0 and 1,
  a further posted constraint holds exactly when at least two are.
\<close>

theorem coverage_enforced:
  assumes "d < num_days" and "s < num_shifts"
  shows "(\<exists>c\<in>set (constraints main_model). \<forall>a. holds a c \<longleftrightarrow> 1 \<le> assigned_count a d s)
       \<and> (s < 2 \<longrightarrow>
            (\<exists>c\<in>set (constraints main_model). \<forall>a. holds a c \<longleftrightarrow> 2 \<le> assigned_count a d s))"
proof (intro conjI impI)
  show "\<exists>c\<in>set (constraints main_model). \<forall>a. holds a c \<longleftrightarrow> 1 \<le> assigned_count a d s"
    using coverage1_posted [OF assms] holds_coverage [of _ d s 1] by (intro bexI) auto
next
  assume "s < 2"
  then show "\<exists>c\<in>set (constraints main_model). \<forall>a. holds a c \<longleftrightarrow> 2 \<le> assigned_count a d s"
    using coverage2_posted [OF assms(1)] holds_coverage [of _ d s 2] by (intro bexI) auto
qed

theorem coverage_enforced_witness:
  "(0::nat) < num_days \<and> (0::nat) < num_shifts
   \<and> (\<exists>c\<in>set (constraints main_model). \<forall>a. holds a c \<longleftrightarrow> 1 \<le> assigned_count a 0 0)
   \<and> (\<exists>c\<in>set (constraints main_model). \<forall>a. holds a c \<longleftrightarrow> 2 \<le> assigned_count a 0 0)"
proof -
  have d: "(0::nat) < num_days" and s: "(0::nat) < num_shifts"
    by (simp_all add: num_days_def num_shifts_def)
  from coverage_enforced [OF d s] d s show ?thesis by simp
qed

text \<open>
  Claim C3. For every pair of physicians \<open>p1 < p2\<close>, consecutive or not, the equality of
  their two night-shift sums is itself one of the posted constraints, and it holds under
  an assignment exactly when the two night-shift counts are equal.
\<close>

theorem night_fairness_enforced:
  assumes "p1 < p2" and "p2 < num_physicians"
  shows "Eq (night_shifts p1) (night_shifts p2) \<in> set (constraints main_model)
       \<and> (\<forall>a. holds a (Eq (night_shifts p1) (night_shifts p2))
                \<longleftrightarrow> night_shift_count a p1 = night_shift_count a p2)"
  using fairness_posted [OF assms] by (simp add: eval_night_shifts)

theorem night_fairness_enforced_witness:
  "(0::nat) < 2 \<and> (2::nat) < num_physicians
   \<and> Eq (night_shifts 0) (night_shifts 2) \<in> set (constraints main_model)
   \<and> (\<forall>a. holds a (Eq (night_shifts 0) (night_shifts 2))
            \<longleftrightarrow> night_shift_count a 0 = night_shift_count a 2)"
proof -
  have h1: "(0::nat) < 2" and h2: "(2::nat) < num_physicians"
    by (simp_all add: num_physicians_def)
  from night_fairness_enforced [OF h1 h2] h1 h2 show ?thesis by simp
qed

text \<open>
  Claim C4. For each of the last two physicians (8 and 9 of 10) and every day, a posted
  constraint holds exactly when that physician's night variable of that day is 0. The
  senior-physician section posts nothing about any other physician: whatever the model
  before it, each constraint of the model after it is either an earlier one or mentions
  variables of physicians 8 and 9 only.
\<close>

theorem senior_exclusion_enforced:
  "(\<forall>p d. num_physicians - 2 \<le> p \<and> p < num_physicians \<and> d < num_days \<longrightarrow>
       (\<exists>c\<in>set (constraints main_model). \<forall>a. holds a c \<longleftrightarrow> \<not> a (p, d, 2)))
   \<and> (\<forall>c\<in>set (constraints (senior_rules m)).
         c \<in> set (constraints m) \<or> (\<forall>v\<in>set (constr_vars c). fst v = 8 \<or> fst v = 9))"
proof (intro conjI allI impI)
  fix p d
  assume h: "num_physicians - 2 \<le> p \<and> p < num_physicians \<and> d < num_days"
  then have "p = 8 \<or> p = 9" by (auto simp: num_physicians_def)
  with h have "Eq (shifts (p, d, 2)) (Const 0) \<in> set (constraints main_model)"
    by (intro senior_posted) auto
  moreover have "\<forall>a. holds a (Eq (shifts (p, d, 2)) (Const 0)) \<longleftrightarrow> \<not> a (p, d, 2)"
    by (simp add: shifts_def)
  ultimately show "\<exists>c\<in>set (constraints main_model). \<forall>a. holds a c \<longleftrightarrow> \<not> a (p, d, 2)"
    by blast
next
  show "\<forall>c\<in>set (constraints (senior_rules m)).
          c \<in> set (constraints m) \<or> (\<forall>v\<in>set (constr_vars c). fst v = 8 \<or> fst v = 9)"
    by (auto simp: constraints_senior shifts_def)
qed

theorem senior_exclusion_enforced_witness:
  "num_physicians - 2 \<le> 8 \<and> 8 < num_physicians \<and> (3::nat) < num_days
   \<and> (\<exists>c\<in>set (constraints main_model). \<forall>a. holds a c \<longleftrightarrow> \<not> a (8, 3, 2))
   \<and> list_all (\<lambda>c. list_all (\<lambda>v. fst v = 8 \<or> fst v = 9) (constr_vars c))
        (constraints (senior_rules CpModel))"
proof -
  have h: "num_physicians - 2 \<le> 8 \<and> 8 < num_physicians \<and> (3::nat) < num_days"
    by (simp add: num_physicians_def num_days_def)
  have e: "\<And>c. c \<notin> set (constraints CpModel)"
    by (simp add: CpModel_def)
  note t = senior_exclusion_enforced [of CpModel]
  from t h have "\<exists>c\<in>set (constraints main_model). \<forall>a. holds a c \<longleftrightarrow> \<not> a (8, 3, 2)"
    by (elim conjE allE [of _ 8] allE [of _ 3]) simp
  moreover from t e have "list_all (\<lambda>c. list_all (\<lambda>v. fst v = 8 \<or> fst v = 9) (constr_vars c))
        (constraints (senior_rules CpModel))"
    by (simp add: list_all_iff)
  ultimately show ?thesis using h by simp
qed

text \<open>
  Claim C5. For every physician and every day \<open>d\<close> before the last one (\<open>d < 6\<close>), a posted
  constraint holds exactly when the physician does not work both the night shift of day
  \<open>d\<close> and the morning shift of day \<open>(d + 1) mod num_days\<close>. The pair (day 6, day 0) is
  not checked: no posted constraint of any family mentions both the night variable of the
  last day and the morning variable of day 0 of a physician, and the constraints of the
  rest-period section have a solution in which the physician works both.
\<close>

theorem rest_enforced:
  assumes "p < num_physicians"
  shows "(\<forall>d. d < num_days - 1 \<longrightarrow>
            (\<exists>c\<in>set (constraints main_model).
               \<forall>a. holds a c \<longleftrightarrow> \<not> (a (p, d, 2) \<and> a (p, (d + 1) mod num_days, 0))))
       \<and> (\<forall>c\<in>set (constraints main_model).
            \<not> ((p, num_days - 1, 2) \<in> set (constr_vars c) \<and> (p, 0, 0) \<in> set (constr_vars c)))
       \<and> (\<exists>a. list_all (holds a) (constraints (rest_periods CpModel))
              \<and> a (p, num_days - 1, 2) \<and> a (p, 0, 0))"
proof (intro conjI allI impI)
  fix d
  assume d: "d < num_days - 1"
  have "Le (Plus (shifts (p, d, 2)) (shifts (p, (d + 1) mod 7, 0))) (Const 1)
          \<in> set (constraints main_model)"
    using assms d by (rule rest_posted)
  moreover have "\<forall>a. holds a (Le (Plus (shifts (p, d, 2)) (shifts (p, (d + 1) mod 7, 0))) (Const 1))
          \<longleftrightarrow> \<not> (a (p, d, 2) \<and> a (p, (d + 1) mod num_days, 0))"
    by (simp add: shifts_def num_days_def)
  ultimately show "\<exists>c\<in>set (constraints main_model).
       \<forall>a. holds a c \<longleftrightarrow> \<not> (a (p, d, 2) \<and> a (p, (d + 1) mod num_days, 0))"
    by blast
next
  show "\<forall>c\<in>set (constraints main_model).
          \<not> ((p, num_days - 1, 2) \<in> set (constr_vars c) \<and> (p, 0, 0) \<in> set (constr_vars c))"
    using assms by (rule not_both_vars_main)
next
  let ?a = "\<lambda>v. v = (p, 6, 2) \<or> v = (p, 0::nat, 0::nat)"
  have one: "shifts_on_day ?a q d \<le> 1" for q d
    by (simp add: shifts_on_day_def all_shifts_list)
  have "list_all (holds ?a) (constraints (rest_periods CpModel))"
    unfolding list_all_iff ball_rest holds_one_shift holds_rest
    using one by (simp add: num_days_def)
  then show "\<exists>a. list_all (holds a) (constraints (rest_periods CpModel))
              \<and> a (p, num_days - 1, 2) \<and> a (p, 0, 0)"
    by (intro exI [of _ ?a]) (simp add: num_days_def)
qed

theorem rest_enforced_witness:
  "(4::nat) < num_physicians \<and> (5::nat) < num_days - 1
   \<and> (\<exists>c\<in>set (constraints main_model). \<forall>a. holds a c \<longleftrightarrow> \<not> (a (4, 5, 2) \<and> a (4, 6, 0)))
   \<and> list_all (\<lambda>c. \<not> ((4, 6, 2) \<in> set (constr_vars c) \<and> (4, 0, 0) \<in> set (constr_vars c)))
        (constraints main_model)
   \<and> (\<exists>a. list_all (holds a) (constraints (rest_periods CpModel)) \<and> a (4, 6, 2) \<and> a (4, 0, 0))"
proof -
  have p: "(4::nat) < num_physicians" and d: "(5::nat) < num_days - 1"
    by (simp_all add: num_physicians_def num_days_def)
  note t = rest_enforced [OF p]
  from t d have "\<exists>c\<in>set (constraints main_model).
      \<forall>a. holds a c \<longleftrightarrow> \<not> (a (4, 5, 2) \<and> a (4, (5 + 1) mod num_days, 0))"
    by blast
  then have c1: "\<exists>c\<in>set (constraints main_model). \<forall>a. holds a c \<longleftrightarrow> \<not> (a (4, 5, 2) \<and> a (4, 6, 0))"
    by (simp add: num_days_def)
  from t have c2: "list_all (\<lambda>c. \<not> ((4, 6, 2) \<in> set (constr_vars c) \<and> (4, 0, 0) \<in> set (constr_vars c)))
        (constraints main_model)"
    by (simp add: list_all_iff num_days_def)
  from t have c3: "\<exists>a. list_all (holds a) (constraints (rest_periods CpModel)) \<and> a (4, 6, 2) \<and> a (4, 0, 0)"
    by (simp add: num_days_def)
  from p d c1 c2 c3 show ?thesis by simp
qed

text \<open>
  Claim C6. For every physician and shift, a posted constraint holds exactly when the
  variables of day 5 and day 6 have the same value.
\<close>

theorem weekend_mirroring_enforced:
  assumes "p < num_physicians" and "s < num_shifts"
  shows "\<exists>c\<in>set (constraints main_model). \<forall>a. holds a c \<longleftrightarrow> (a (p, 5, s) \<longleftrightarrow> a (p, 6, s))"
  using weekend_posted [OF assms] holds_weekend [of _ "(p, 5, s)" "(p, 6, s)"]
  by (intro bexI) auto

theorem weekend_mirroring_enforced_witness:
  "(7::nat) < num_physicians \<and> (1::nat) < num_shifts
   \<and> (\<exists>c\<in>set (constraints main_model). \<forall>a. holds a c \<longleftrightarrow> (a (7, 5, 1) \<longleftrightarrow> a (7, 6, 1)))"
proof -
  have p: "(7::nat) < num_physicians" and s: "(1::nat) < num_shifts"
    by (simp_all add: num_physicians_def num_shifts_def)
  from weekend_mirroring_enforced [OF p s] p s show ?thesis by simp
qed

text \<open>
  Claim C7. For every physician and day, a posted constraint holds exactly when the
  physician is assigned at most one shift of that day; in particular it holds when the
  physician is assigned none.
\<close>

theorem one_shift_per_day_enforced:
  assumes "p < num_physicians" and "d < num_days"
  shows "\<exists>c\<in>set (constraints main_model).
           (\<forall>a. holds a c \<longleftrightarrow> shifts_on_day a p d \<le> 1)
           \<and> (\<forall>a. shifts_on_day a p d = 0 \<longrightarrow> holds a c)"
  using one_shift_posted [OF assms] holds_one_shift [of _ p d]
  by (intro bexI) auto

theorem one_shift_per_day_enforced_witness:
  "(0::nat) < num_physicians \<and> (6::nat) < num_days
   \<and> (\<exists>c\<in>set (constraints main_model).
         (\<forall>a. holds a c \<longleftrightarrow> shifts_on_day a 0 6 \<le> 1)
         \<and> shifts_on_day (\<lambda>v. False) 0 6 = 0 \<and> holds (\<lambda>v. False) c)"
proof -
  have p: "(0::nat) < num_physicians" and d: "(6::nat) < num_days"
    by (simp_all add: num_physicians_def num_days_def)
  have z: "shifts_on_day (\<lambda>v. False) 0 6 = 0"
    by (simp add: shifts_on_day_def)
  from one_shift_per_day_enforced [OF p d] obtain c where
    "c \<in> set (constraints main_model)" "\<forall>a. holds a c \<longleftrightarrow> shifts_on_day a 0 6 \<le> 1"
    "\<forall>a. shifts_on_day a 0 6 = 0 \<longrightarrow> holds a c"
    by blast
  with z p d show ?thesis by (intro conjI bexI [of _ c]) auto
qed

subsection \<open>The objective\<close>

lemma sum_list_upt_sum: "sum_list (map f [0..<n]) = (\<Sum>i<n. f i)"
  by (simp add: interv_sum_list_conv_sum_set_nat lessThan_atLeast0)

lemma sum_list_concat_map:
  "sum_list (map f (concat (map g xs))) = sum_list (map (\<lambda>x. sum_list (map f (g x))) xs)"
  by (induction xs) simp_all

text \<open>Line 73 is right: the expression of a physician evaluates to the total shift count.\<close>

lemma eval_total_shifts: "eval a (total_shifts p) = total_shift_count a p"
  by (simp add: total_shifts_def total_shift_count_def eval_py_sum sum_list_concat_map
      comp_def shifts_def all_days_def all_shifts_def sum_list_upt_sum)

lemma py_mul_differences: "py_mul (Minus x y) (Minus u v) = Inl TypeError"
  by (simp add: py_mul_def)

lemma set_squared_differences: "set squared_differences = {Inl TypeError}"
proof -
  have "(0::nat) < 1 \<and> (0::nat) < num_physicians \<and> (1::nat) < num_physicians"
    by (simp add: num_physicians_def)
  then have "Inl TypeError \<in> set squared_differences"
    unfolding squared_differences_def
    by (auto simp: set_ranges py_mul_differences intro!: bexI [of _ 0] bexI [of _ 1])
  moreover have "set squared_differences \<subseteq> {Inl TypeError}"
    by (auto simp: squared_differences_def py_mul_differences split: if_splits)
  ultimately show ?thesis by auto
qed

lemma collect_all_raise:
  assumes "set xs = {Inl e}"
  shows "collect xs = Inl e"
proof (cases xs)
  case Nil
  with assms show ?thesis by simp
next
  case (Cons x ys)
  with assms have "x = Inl e" by auto
  with Cons show ?thesis by simp
qed

lemma objective_Add [simp]: "objective (Add c m) = objective m"
  by (simp add: Add_def)

lemma objective_NewBoolVar [simp]: "objective (NewBoolVar k m) = objective m"
  by (simp add: NewBoolVar_def)

lemma objective_fold_keep:
  assumes "\<And>x m. objective (g x m) = objective m"
  shows "objective (fold g xs m) = objective m"
  using assms by (induction xs arbitrary: m) simp_all

lemma objective_main_model: "objective main_model = None"
  unfolding main_model_def weekend_rules_def senior_rules_def night_fairness_def
    rest_periods_def coverage_requirements_def create_variables_def
  by (simp add: objective_fold_keep Let_def CpModel_def)

text \<open>
  Claim C8 is about the objective handed to the solver: the sum over all pairs \<open>p1 < p2\<close>
  of the squared difference of the total shift counts, as the comment on line 75 also
  announces. The program does not get there. Line 76 writes each square as the product
  of two expressions, neither of which is a number, so every item of the generator raises
  \<^verbatim>\<open>TypeError\<close>, the first one for the pair (0, 1): evaluating the argument of
  \<^verbatim>\<open>model.Minimize\<close> ends with that error, so does \<^verbatim>\<open>main\<close>, and the model that was built
  up to then has no objective.
\<close>

theorem objective_raises_type_error:
  "objective_arg = Inl TypeError \<and> main = Inl TypeError \<and> objective main_model = None"
proof -
  have "collect squared_differences = Inl TypeError"
    using set_squared_differences by (rule collect_all_raise)
  then have arg: "objective_arg = Inl TypeError"
    by (simp add: objective_arg_def)
  have "main = Inl TypeError"
    unfolding main_def arg by simp
  with arg show ?thesis
    by (simp add: objective_main_model)
qed

section \<open>Properties of the result printer\<close>

lemma printed_print [simp]: "printed (print txt e c) = printed c @ txt @ e"
  by (simp add: print_def)

lemma reads_print [simp]: "reads (print txt e c) = reads c"
  by (simp add: print_def)

lemma printed_fold:
  assumes "\<And>x c. printed (g x c) = printed c @ h x"
  shows "printed (fold g xs c) = printed c @ concat (map h xs)"
  using assms by (induction xs arbitrary: c) simp_all

lemma concat_map_if:
  "concat (map (\<lambda>x. if P x then f x else []) xs) = concat (map f (filter P xs))"
  by (induction xs) simp_all

lemma enumerate_map_upt: "enumerate 0 (map f [0..<n]) = map (\<lambda>i. (i, f i)) [0..<n]"
  by (simp add: enumerate_eq_zip zip_map2 zip_same_conv_map)

lemma printed_print_physician:
  "printed (print_physician value_of d s p c) =
     printed c @ (if value_of (p, d, s) = 1 then ''P'' @ str_nat (p + 1) @ '' '' else [])"
  by (simp add: print_physician_def Value_def)

lemma printed_print_shift:
  "printed (print_shift value_of d s c) =
     printed c @ spec_show_shift s (filter (\<lambda>p. value_of (p, d, s) = 1) all_physicians)"
  by (simp add: print_shift_def spec_show_shift_def
      printed_fold [where h = "\<lambda>p. if value_of (p, d, s) = 1 then ''P'' @ str_nat (p + 1) @ '' '' else []"]
      printed_print_physician concat_map_if)

lemma printed_print_day:
  "printed (print_day value_of d c) =
     printed c @ spec_show_day d
       (map (\<lambda>s. filter (\<lambda>p. value_of (p, d, s) = 1) all_physicians) all_shifts)"
  by (simp add: print_day_def spec_show_day_def all_shifts_def enumerate_map_upt comp_def
      printed_fold [where h = "\<lambda>s. spec_show_shift s (filter (\<lambda>p. value_of (p, d, s) = 1) all_physicians)"]
      printed_print_shift)

lemma printed_print_solution:
  assumes "st = OPTIMAL \<or> st = FEASIBLE"
  shows "printed (print_solution st value_of c) =
     printed c @ spec_show_roster (spec_roster value_of)"
proof -
  have "printed (fold (print_day value_of) all_days (print ''Solution found:'' newline c))
      = printed c @ ''Solution found:'' @ newline @ concat (map (\<lambda>d. spec_show_day d
       (map (\<lambda>s. filter (\<lambda>p. value_of (p, d, s) = 1) all_physicians) all_shifts)) all_days)"
    by (simp add: printed_fold [where h = "\<lambda>d. spec_show_day d
       (map (\<lambda>s. filter (\<lambda>p. value_of (p, d, s) = 1) all_physicians) all_shifts)"]
      printed_print_day)
  also have "\<dots> = printed c @ spec_show_roster (spec_roster value_of)"
    unfolding spec_show_roster_def spec_roster_def
    by (simp add: enumerate_map_upt comp_def all_days_def all_shifts_def all_physicians_def
        num_days_def num_shifts_def num_physicians_def)
  finally show ?thesis using assms by (simp add: print_solution_def)
qed

lemma spec_roster_nth:
  assumes "d < num_days" and "s < num_shifts"
  shows "spec_roster value_of ! d ! s = filter (\<lambda>p. value_of (p, d, s) = 1) [0..<num_physicians]"
  using assms by (simp add: spec_roster_def num_days_def num_shifts_def num_physicians_def)

text \<open>
  Claim C9. For every status other than \<open>OPTIMAL\<close> and \<open>FEASIBLE\<close> (among them
  \<open>INFEASIBLE\<close> and \<open>UNKNOWN\<close>) the printer writes the one line \<open>No solution found.\<close> and
  asks the solver for the value of no variable, whatever the value function is.
\<close>

theorem no_solution_report:
  assumes "st \<noteq> OPTIMAL" and "st \<noteq> FEASIBLE"
  shows "print_solution st value_of c = c\<lparr>printed := printed c @ ''No solution found.'' @ newline\<rparr>
       \<and> reads (print_solution st value_of c) = reads c"
  using assms by (simp add: print_solution_def print_def)

theorem no_solution_report_witness:
  "INFEASIBLE \<noteq> OPTIMAL \<and> INFEASIBLE \<noteq> FEASIBLE \<and> UNKNOWN \<noteq> OPTIMAL \<and> UNKNOWN \<noteq> FEASIBLE
   \<and> printed (print_solution INFEASIBLE (\<lambda>v. 1) console0) = ''No solution found.'' @ newline
   \<and> reads (print_solution INFEASIBLE (\<lambda>v. 1) console0) = []
   \<and> printed (print_solution UNKNOWN (\<lambda>v. 1) console0) = ''No solution found.'' @ newline
   \<and> reads (print_solution UNKNOWN (\<lambda>v. 1) console0) = []"
  using no_solution_report [of INFEASIBLE "\<lambda>v. 1" console0]
    no_solution_report [of UNKNOWN "\<lambda>v. 1" console0]
  by (simp add: console0_def)

text \<open>
  Claim C10. When the status is \<open>OPTIMAL\<close> or \<open>FEASIBLE\<close>, the text the printer writes is
  the display of the structured report: days in ascending order, within a day the shifts
  in ascending order, within a shift the physicians in ascending order, all numbered from
  1 in the display. The physicians listed for day \<open>d\<close> and shift \<open>s\<close> are exactly those
  whose variable has the value 1. No assumption on the value function is needed.
\<close>

theorem schedule_report_correct:
  assumes "st = OPTIMAL \<or> st = FEASIBLE"
  shows "printed (print_solution st value_of console0) = spec_show_roster (spec_roster value_of)
       \<and> length (spec_roster value_of) = num_days
       \<and> (\<forall>d<num_days. length (spec_roster value_of ! d) = num_shifts
            \<and> (\<forall>s<num_shifts.
                  sorted_wrt (<) (spec_roster value_of ! d ! s)
                  \<and> set (spec_roster value_of ! d ! s)
                      = {p. p < num_physicians \<and> value_of (p, d, s) = 1}))"
proof (intro conjI allI impI)
  show "printed (print_solution st value_of console0) = spec_show_roster (spec_roster value_of)"
    using printed_print_solution [OF assms, of value_of console0] by (simp add: console0_def)
next
  show "length (spec_roster value_of) = num_days"
    by (simp add: spec_roster_def num_days_def)
next
  fix d assume "d < num_days"
  then show "length (spec_roster value_of ! d) = num_shifts"
    by (simp add: spec_roster_def num_days_def num_shifts_def)
next
  fix d s assume "d < num_days" and "s < num_shifts"
  then show "sorted_wrt (<) (spec_roster value_of ! d ! s)"
    by (simp add: spec_roster_nth sorted_wrt_filter)
next
  fix d s assume "d < num_days" and "s < num_shifts"
  then show "set (spec_roster value_of ! d ! s) = {p. p < num_physicians \<and> value_of (p, d, s) = 1}"
    by (auto simp: spec_roster_nth)
qed

theorem schedule_report_correct_witness:
  "printed (print_solution OPTIMAL
       (\<lambda>v. if (fst v = 2 \<or> fst v = 9) \<and> snd (snd v) = 0 then 1 else 0) console0)
     = spec_show_roster (spec_roster
         (\<lambda>v. if (fst v = 2 \<or> fst v = 9) \<and> snd (snd v) = 0 then 1 else 0))
   \<and> spec_roster (\<lambda>v. if (fst v = 2 \<or> fst v = 9) \<and> snd (snd v) = 0 then 1 else 0) ! 4 ! 0
       = [2, 9]
   \<and> spec_show_shift 0 [2, 9] = ''  Shift 1: P3 P10 '' @ newline"
proof -
  have r: "spec_roster (\<lambda>v. if (fst v = 2 \<or> fst v = 9) \<and> snd (snd v) = 0 then 1 else 0) ! 4 ! 0
       = [2, 9]"
    by code_simp
  have t: "spec_show_shift 0 [2, 9] = ''  Shift 1: P3 P10 '' @ newline"
    by code_simp
  from schedule_report_correct [of OPTIMAL
      "\<lambda>v. if (fst v = 2 \<or> fst v = 9) \<and> snd (snd v) = 0 then 1 else 0"] r t
  show ?thesis by simp
qed

end
